theory Spec2Isabelle
  imports Complex_Main
begin

section \<open>JavaScript numbers\<close>

text \<open>
  The components compute with JavaScript numbers. A number is modelled as an exact real,
  one of the two infinities, or \<open>NaN\<close>: comparisons with \<open>NaN\<close> are false, \<open>NaN\<close> is
  absorbing, and a division by zero gives an infinity or \<open>NaN\<close> as in the language.
  Arithmetic is exact: the rounding of IEEE-754 doubles (and with it overflow and
  underflow) is abstracted, and the two zeros are identified (every divisor that can be
  zero in the code below is a sum that starts at \<open>+0\<close>, or a positive literal).
\<close>

datatype number = NaN | NInf | Fin real | PInf

instantiation number :: "{zero, one, plus, minus, uminus, times, inverse, ord}"
begin

definition zero_number :: number where
  "zero_number = Fin 0"

definition one_number :: number where
  "one_number = Fin 1"

fun plus_number :: "number \<Rightarrow> number \<Rightarrow> number" where
  "plus_number NaN y = NaN"
| "plus_number x NaN = NaN"
| "plus_number PInf NInf = NaN"
| "plus_number NInf PInf = NaN"
| "plus_number PInf y = PInf"
| "plus_number x PInf = PInf"
| "plus_number NInf y = NInf"
| "plus_number x NInf = NInf"
| "plus_number (Fin a) (Fin b) = Fin (a + b)"

fun uminus_number :: "number \<Rightarrow> number" where
  "uminus_number NaN = NaN"
| "uminus_number NInf = PInf"
| "uminus_number PInf = NInf"
| "uminus_number (Fin a) = Fin (- a)"

definition minus_number :: "number \<Rightarrow> number \<Rightarrow> number" where
  "minus_number x y = x + (- y)"

fun times_number :: "number \<Rightarrow> number \<Rightarrow> number" where
  "times_number NaN y = NaN"
| "times_number x NaN = NaN"
| "times_number (Fin a) (Fin b) = Fin (a * b)"
| "times_number (Fin a) PInf = (if 0 < a then PInf else if a < 0 then NInf else NaN)"
| "times_number (Fin a) NInf = (if 0 < a then NInf else if a < 0 then PInf else NaN)"
| "times_number PInf (Fin b) = (if 0 < b then PInf else if b < 0 then NInf else NaN)"
| "times_number NInf (Fin b) = (if 0 < b then NInf else if b < 0 then PInf else NaN)"
| "times_number PInf PInf = PInf"
| "times_number NInf NInf = PInf"
| "times_number PInf NInf = NInf"
| "times_number NInf PInf = NInf"

fun divide_number :: "number \<Rightarrow> number \<Rightarrow> number" where
  "divide_number NaN y = NaN"
| "divide_number x NaN = NaN"
| "divide_number (Fin a) (Fin b) =
     (if b \<noteq> 0 then Fin (a / b)
      else if 0 < a then PInf else if a < 0 then NInf else NaN)"
| "divide_number (Fin a) y = Fin 0"
| "divide_number PInf (Fin b) = (if 0 \<le> b then PInf else NInf)"
| "divide_number NInf (Fin b) = (if 0 \<le> b then NInf else PInf)"
| "divide_number x y = NaN"

definition inverse_number :: "number \<Rightarrow> number" where
  "inverse_number x = Fin 1 div x"

fun less_number :: "number \<Rightarrow> number \<Rightarrow> bool" where
  "less_number NaN y = False"
| "less_number x NaN = False"
| "less_number (Fin a) (Fin b) = (a < b)"
| "less_number x NInf = False"
| "less_number PInf y = False"
| "less_number NInf y = True"
| "less_number x PInf = True"

definition less_eq_number :: "number \<Rightarrow> number \<Rightarrow> bool" where
  "less_eq_number x y = (x < y \<or> (x = y \<and> x \<noteq> NaN))"

instance ..

end

text \<open>Addition is associative and commutative with neutral element zero (\<open>NaN\<close> and
  the sum of the two infinities absorb), so finite sums of numbers are defined.\<close>

instance number :: comm_monoid_add
proof
  fix p q r :: number
  show "0 + p = p"
    by (cases p; simp add: zero_number_def)
  show "p + q = q + p"
    by (cases p; cases q; simp)
  show "p + q + r = p + (q + r)"
    by (cases p; cases q; cases r; simp)
qed

text \<open>\<open>Math.pow(x, k)\<close> for an exponent that is a non-negative integer, as the loop of the
  position smoother calls it: the power with exponent zero is one for every base,
  \<open>NaN\<close> included.\<close>

fun Math_pow :: "number \<Rightarrow> nat \<Rightarrow> number" where
  "Math_pow x 0 = Fin 1"
| "Math_pow NaN (Suc k) = NaN"
| "Math_pow PInf (Suc k) = PInf"
| "Math_pow NInf (Suc k) = (if even k then NInf else PInf)"
| "Math_pow (Fin a) (Suc k) = Fin (a ^ Suc k)"

text \<open>\<open>Math.min\<close> of two numbers.\<close>

definition Math_min :: "number \<Rightarrow> number \<Rightarrow> number" where
  "Math_min x y = (if x = NaN \<or> y = NaN then NaN else if x < y then x else y)"

section \<open>JavaScript strings\<close>

text \<open>A string is its sequence of UTF-16 code units. \<open>str\<close> embeds an ASCII literal.\<close>

type_synonym jsstring = "nat list"

definition str :: "string \<Rightarrow> jsstring" where
  "str s = map of_char s"

text \<open>
  \<open>String.prototype.toLowerCase\<close>, on the ASCII capital letters and on the three
  other characters whose lower case is a character \<open>parseResistorValue\<close> looks for:
  KELVIN SIGN (U+212A) becomes \<open>k\<close>, GREEK CAPITAL LETTER OMEGA (U+03A9) and OHM SIGN
  (U+2126) become the small omega (U+03C9). Every other code unit is kept; the lower
  case of another letter is never a character the parser inspects.
\<close>

definition toLowerCaseUnit :: "nat \<Rightarrow> nat" where
  "toLowerCaseUnit c =
     (if 65 \<le> c \<and> c \<le> 90 then c + 32
      else if c = 8490 then 107
      else if c = 937 \<or> c = 8486 then 969
      else c)"

definition toLowerCase :: "jsstring \<Rightarrow> jsstring" where
  "toLowerCase s = map toLowerCaseUnit s"

text \<open>The characters the regular expression class \<open>\s\<close> matches (white space and line
  terminators); \<open>parseFloat\<close> skips the same characters at the start of its argument.\<close>

definition isWhiteSpace :: "nat \<Rightarrow> bool" where
  "isWhiteSpace c =
     (c = 9 \<or> c = 10 \<or> c = 11 \<or> c = 12 \<or> c = 13 \<or> c = 32 \<or> c = 160 \<or> c = 5760
      \<or> (8192 \<le> c \<and> c \<le> 8202) \<or> c = 8232 \<or> c = 8233 \<or> c = 8239 \<or> c = 8287
      \<or> c = 12288 \<or> c = 65279)"

fun startsWith :: "jsstring \<Rightarrow> jsstring \<Rightarrow> bool" where
  "startsWith s [] = True"
| "startsWith [] (p # ps) = False"
| "startsWith (c # cs) (p # ps) = (c = p \<and> startsWith cs ps)"

text \<open>\<open>s.includes(p)\<close>: \<open>p\<close> occurs in \<open>s\<close> as a contiguous substring.\<close>

fun includes_str :: "jsstring \<Rightarrow> jsstring \<Rightarrow> bool" where
  "includes_str [] p = (p = [])"
| "includes_str (c # cs) p = (startsWith (c # cs) p \<or> includes_str cs p)"

definition isDigit :: "nat \<Rightarrow> bool" where
  "isDigit c = (48 \<le> c \<and> c \<le> 57)"

definition digitsValue :: "jsstring \<Rightarrow> nat" where
  "digitsValue ds = foldl (\<lambda>a d. 10 * a + (d - 48)) 0 ds"

definition pow10 :: "int \<Rightarrow> real" where
  "pow10 e = (if 0 \<le> e then 10 ^ nat e else 1 / 10 ^ nat (- e))"

text \<open>The exponent part of a decimal literal (\<open>e\<close> or \<open>E\<close>, an optional sign, decimal
  digits) at the start of a string; \<open>0\<close> when the string does not start with one.\<close>

definition exponentPart :: "jsstring \<Rightarrow> int" where
  "exponentPart r =
     (case r of
        [] \<Rightarrow> 0
      | c # r1 \<Rightarrow>
          if c = of_char CHR ''e'' \<or> c = of_char CHR ''E'' then
            (case r1 of
               [] \<Rightarrow> 0
             | sg # r2 \<Rightarrow>
                 if sg = of_char CHR ''+'' then
                   (if takeWhile isDigit r2 = [] then 0
                    else int (digitsValue (takeWhile isDigit r2)))
                 else if sg = of_char CHR ''-'' then
                   (if takeWhile isDigit r2 = [] then 0
                    else - int (digitsValue (takeWhile isDigit r2)))
                 else if takeWhile isDigit r1 = [] then 0
                 else int (digitsValue (takeWhile isDigit r1)))
          else 0)"

text \<open>The value of the longest prefix that is an unsigned decimal literal
  (\<open>Infinity\<close>, \<open>digits\<close>, \<open>digits.\<close>, \<open>digits.digits\<close>, \<open>.digits\<close>, each but the first
  with an optional exponent part), \<open>NaN\<close> when no prefix is one.\<close>

definition strUnsignedDecimalLiteral :: "jsstring \<Rightarrow> number" where
  "strUnsignedDecimalLiteral r =
     (if startsWith r (str ''Infinity'') then PInf
      else
        let ip = takeWhile isDigit r; r1 = dropWhile isDigit r in
        (case r1 of
           [] \<Rightarrow> if ip = [] then NaN else Fin (real (digitsValue ip))
         | c # r2 \<Rightarrow>
             if c = of_char CHR ''.'' then
               (let fp = takeWhile isDigit r2; r3 = dropWhile isDigit r2 in
                if ip = [] \<and> fp = [] then NaN
                else Fin ((real (digitsValue ip) + real (digitsValue fp) / 10 ^ length fp)
                          * pow10 (exponentPart r3)))
             else if ip = [] then NaN
             else Fin (real (digitsValue ip) * pow10 (exponentPart r1))))"

text \<open>The global \<open>parseFloat\<close>: leading white space is skipped, then the longest prefix that
  is a signed decimal literal is read; the result is \<open>NaN\<close> when there is none.\<close>

definition parseFloat :: "jsstring \<Rightarrow> number" where
  "parseFloat s =
     (case dropWhile isWhiteSpace s of
        [] \<Rightarrow> NaN
      | c # r \<Rightarrow>
          if c = of_char CHR ''+'' then strUnsignedDecimalLiteral r
          else if c = of_char CHR ''-'' then - strUnsignedDecimalLiteral r
          else strUnsignedDecimalLiteral (c # r))"

section \<open>Detected components (BreadboardAssistant)\<close>

text \<open>
  Classes and interfaces are records and enums are datatypes, under the names of the
  source. The fields of a record are constants of the theory, so a field whose name is
  used by two interfaces, or is a name of the logic, carries a prefix: \<open>comp_type\<close> is
  the field \<open>type\<close> of a detected component, \<open>hole_x\<close> the field \<open>x\<close> of a hole,
  \<open>ov_id\<close> the field \<open>id\<close> of an overlay, \<open>cfg_size\<close> the field \<open>size\<close> of a highlight
  configuration, and so on. An optional field is an \<open>option\<close>.
\<close>

datatype ComponentType =
  Resistor | OpAmp | Breadboard | Wire | Capacitor | Inductor | Diode | Transistor
  | UnknownComponent

text \<open>A detected component. The untyped field \<open>additionalInfo\<close> is never read and is left
  out. A bounding box is \<open>(x, y, width, height)\<close>.\<close>

record DetectedComponent =
  comp_type :: ComponentType
  comp_position :: "number \<times> number"
  comp_confidence :: number
  comp_boundingBox :: "(number \<times> number \<times> number \<times> number) option"
  comp_value :: "jsstring option"
  comp_pins :: "jsstring list option"

text \<open>A breadboard hole. Its optional list of connected holes is never read and is left
  out.\<close>

record BreadboardHole =
  hole_x :: number
  hole_y :: number
  hole_row :: number
  hole_column :: number
  hole_isConnected :: bool

text \<open>The truth value of an optional string in a condition: defined and not empty.\<close>

definition truthy :: "jsstring option \<Rightarrow> bool" where
  "truthy v = (case v of None \<Rightarrow> False | Some s \<Rightarrow> s \<noteq> [])"

section \<open>CircuitTopologyAnalyzer\<close>

datatype CircuitType =
  NonInvertingOpAmp | InvertingOpAmp | VoltageDivider | LowPassFilter | HighPassFilter
  | Unknown

datatype ConnectionType = Input | Output | Power | Ground | Feedback | Signal

record CircuitConnection =
  fromComponent :: DetectedComponent
  toComponent :: DetectedComponent
  connectionType :: ConnectionType
  fromPin :: "jsstring option"
  toPin :: "jsstring option"
  conn_confidence :: number

record CircuitAnalysisResult =
  circuitType :: CircuitType
  components :: "DetectedComponent list"
  connections :: "CircuitConnection list"
  completeness :: number
  missingComponents :: "jsstring list"
  errors :: "jsstring list"
  isValid :: bool
  gain :: "number option"
  bandwidth :: "number option"

record CircuitTopologyAnalyzer =
  enableRealTimeAnalysis :: bool
  analysisConfidenceThreshold :: number
  maxConnectionDistance :: number
  enableGainCalculation :: bool
  targetCircuitType :: jsstring
  enableAutoDetection :: bool
  requirePowerConnections :: bool
  detectedComponents :: "DetectedComponent list"
  detectedConnections :: "CircuitConnection list"
  currentAnalysis :: "CircuitAnalysisResult option"
  analysisHistory :: "CircuitAnalysisResult list"

text \<open>\<open>detectCircuitType\<close>: the three tests in the order of the source.\<close>

definition detectCircuitType :: "CircuitTopologyAnalyzer \<Rightarrow> CircuitType" where
  "detectCircuitType this =
     (let resistors = filter (\<lambda>c. comp_type c = Resistor) (detectedComponents this);
          opAmps = filter (\<lambda>c. comp_type c = OpAmp) (detectedComponents this)
      in if 2 \<le> length resistors \<and> 1 \<le> length opAmps then NonInvertingOpAmp
         else if 2 \<le> length resistors \<and> 1 \<le> length opAmps then InvertingOpAmp
         else if 2 \<le> length resistors \<and> length opAmps = 0 then VoltageDivider
         else Unknown)"

definition calculateOpAmpConnections ::
  "DetectedComponent \<Rightarrow> DetectedComponent \<Rightarrow> DetectedComponent \<Rightarrow> CircuitConnection list"
where
  "calculateOpAmpConnections inputResistor feedbackResistor opAmp =
     [\<lparr>fromComponent = inputResistor, toComponent = opAmp, connectionType = Input,
        fromPin = Some (str ''output''), toPin = Some (str ''IN+''),
        conn_confidence = Fin (9 / 10)\<rparr>,
      \<lparr>fromComponent = feedbackResistor, toComponent = opAmp, connectionType = Feedback,
        fromPin = Some (str ''input''), toPin = Some (str ''IN+''),
        conn_confidence = Fin (9 / 10)\<rparr>,
      \<lparr>fromComponent = opAmp, toComponent = feedbackResistor, connectionType = Output,
        fromPin = Some (str ''OUT''), toPin = Some (str ''output''),
        conn_confidence = Fin (9 / 10)\<rparr>]"

text \<open>\<open>parseResistorValue\<close>. \<open>replace('k', '')\<close> with a string pattern removes the first
  occurrence only; the regular expression \<open>/[\<omega>ohm]/g\<close> removes every occurrence of each
  of the four characters.\<close>

definition parseResistorValue :: "jsstring \<Rightarrow> number" where
  "parseResistorValue v =
     (let cleanValue = filter (\<lambda>c. \<not> isWhiteSpace c) (toLowerCase v) in
      if of_char CHR ''k'' \<in> set cleanValue then
        parseFloat (remove1 (of_char CHR ''k'') cleanValue) * Fin 1000
      else if of_char CHR ''m'' \<in> set cleanValue then
        parseFloat (remove1 (of_char CHR ''m'') cleanValue) * Fin 1000000
      else if 969 \<in> set cleanValue \<or> includes_str cleanValue (str ''ohm'') then
        parseFloat (filter (\<lambda>c. c \<notin> {969, of_char CHR ''o'', of_char CHR ''h'',
                                        of_char CHR ''m''}) cleanValue)
      else parseFloat cleanValue)"

text \<open>The three gain formulas. Each body is wrapped in \<open>try\<close>/\<open>catch\<close> in the source; on a
  string argument none of the calls made inside throws, so the handler is never
  entered and the functions are total.\<close>

definition calculateNonInvertingGain :: "jsstring \<Rightarrow> jsstring \<Rightarrow> number" where
  "calculateNonInvertingGain inputResistorValue feedbackResistorValue =
     (let r1 = parseResistorValue inputResistorValue;
          r2 = parseResistorValue feedbackResistorValue
      in if Fin 0 < r1 \<and> Fin 0 < r2 then Fin 1 + r2 / r1 else Fin 1)"

definition calculateInvertingGain :: "jsstring \<Rightarrow> jsstring \<Rightarrow> number" where
  "calculateInvertingGain inputResistorValue feedbackResistorValue =
     (let r1 = parseResistorValue inputResistorValue;
          r2 = parseResistorValue feedbackResistorValue
      in if Fin 0 < r1 \<and> Fin 0 < r2 then - (r2 / r1) else Fin (- 1))"

definition calculateVoltageDividerGain :: "jsstring \<Rightarrow> jsstring \<Rightarrow> number" where
  "calculateVoltageDividerGain r1Value r2Value =
     (let r1 = parseResistorValue r1Value;
          r2 = parseResistorValue r2Value
      in if Fin 0 < r1 \<and> Fin 0 < r2 then r2 / (r1 + r2) else Fin (1 / 2))"

definition calculateOpAmpCompleteness :: "CircuitAnalysisResult \<Rightarrow> number" where
  "calculateOpAmpCompleteness result =
     (let resistors = filter (\<lambda>c. comp_type c = Resistor) (components result);
          opAmps = filter (\<lambda>c. comp_type c = OpAmp) (components result);
          score = Fin 0;
          score = (if 2 \<le> length resistors then score + Fin (3 / 10) else score);
          score = (if 1 \<le> length opAmps then score + Fin (3 / 10) else score);
          score = (if 3 \<le> length (connections result) then score + Fin (4 / 10) else score)
      in score)"

definition calculateVoltageDividerCompleteness :: "CircuitAnalysisResult \<Rightarrow> number" where
  "calculateVoltageDividerCompleteness result =
     (let resistors = filter (\<lambda>c. comp_type c = Resistor) (components result);
          score = Fin 0;
          score = (if 2 \<le> length resistors then score + Fin (8 / 10) else score);
          score = (if 1 \<le> length (connections result) then score + Fin (2 / 10) else score)
      in score)"

definition calculateCompleteness :: "CircuitAnalysisResult \<Rightarrow> number" where
  "calculateCompleteness result =
     Math_min
       (case circuitType result of
          NonInvertingOpAmp \<Rightarrow> calculateOpAmpCompleteness result
        | InvertingOpAmp \<Rightarrow> calculateOpAmpCompleteness result
        | VoltageDivider \<Rightarrow> calculateVoltageDividerCompleteness result
        | _ \<Rightarrow> Fin (real (length (components result))) / Fin 5)
       (Fin 1)"

text \<open>The last two statements of the three specific analyses, which are the same in
  each: the completeness is computed and compared with the threshold.\<close>

definition setCompleteness ::
  "CircuitTopologyAnalyzer \<Rightarrow> CircuitAnalysisResult \<Rightarrow> CircuitAnalysisResult" where
  "setCompleteness this result =
     (let result = result\<lparr>completeness := calculateCompleteness result\<rparr>
      in result\<lparr>isValid := (analysisConfidenceThreshold this \<le> completeness result)\<rparr>)"

definition analyzeNonInvertingOpAmp ::
  "CircuitTopologyAnalyzer \<Rightarrow> CircuitAnalysisResult \<Rightarrow> CircuitAnalysisResult" where
  "analyzeNonInvertingOpAmp this result0 =
     (let resistors = filter (\<lambda>c. comp_type c = Resistor) (detectedComponents this);
          opAmps = filter (\<lambda>c. comp_type c = OpAmp) (detectedComponents this);
          result =
            (if length resistors < 2 then
               result0\<lparr>missingComponents := missingComponents result0 @ [str ''feedback resistor''],
                        errors := errors result0
                          @ [str ''Need at least 2 resistors for non-inverting op amp'']\<rparr>
             else result0);
          result =
            (if length opAmps < 1 then
               result\<lparr>missingComponents := missingComponents result
                          @ [str ''operational amplifier''],
                       errors := errors result
                          @ [str ''Need an op amp for non-inverting amplifier'']\<rparr>
             else result)
      in case (resistors, opAmps) of
           (inputResistor # feedbackResistor # _, opAmp # _) \<Rightarrow>
             (let result = result\<lparr>connections :=
                    calculateOpAmpConnections inputResistor feedbackResistor opAmp\<rparr>;
                  result =
                    (if enableGainCalculation this \<and> truthy (comp_value inputResistor)
                        \<and> truthy (comp_value feedbackResistor)
                     then result\<lparr>gain := Some (calculateNonInvertingGain
                            (the (comp_value inputResistor))
                            (the (comp_value feedbackResistor)))\<rparr>
                     else result)
              in setCompleteness this result)
         | _ \<Rightarrow> result)"

definition analyzeInvertingOpAmp ::
  "CircuitTopologyAnalyzer \<Rightarrow> CircuitAnalysisResult \<Rightarrow> CircuitAnalysisResult" where
  "analyzeInvertingOpAmp this result =
     (let resistors = filter (\<lambda>c. comp_type c = Resistor) (detectedComponents this);
          opAmps = filter (\<lambda>c. comp_type c = OpAmp) (detectedComponents this)
      in case (resistors, opAmps) of
           (inputResistor # feedbackResistor # _, opAmp # _) \<Rightarrow>
             (let result =
                    (if enableGainCalculation this \<and> truthy (comp_value inputResistor)
                        \<and> truthy (comp_value feedbackResistor)
                     then result\<lparr>gain := Some (calculateInvertingGain
                            (the (comp_value inputResistor))
                            (the (comp_value feedbackResistor)))\<rparr>
                     else result)
              in setCompleteness this result)
         | _ \<Rightarrow>
             result\<lparr>errors := errors result
                      @ [str ''Inverting op amp requires 2 resistors and 1 op amp'']\<rparr>)"

definition analyzeVoltageDivider ::
  "CircuitTopologyAnalyzer \<Rightarrow> CircuitAnalysisResult \<Rightarrow> CircuitAnalysisResult" where
  "analyzeVoltageDivider this result =
     (let resistors = filter (\<lambda>c. comp_type c = Resistor) (detectedComponents this)
      in case resistors of
           r1 # r2 # _ \<Rightarrow>
             (let result =
                    (if enableGainCalculation this \<and> truthy (comp_value r1)
                        \<and> truthy (comp_value r2)
                     then result\<lparr>gain := Some (calculateVoltageDividerGain
                            (the (comp_value r1)) (the (comp_value r2)))\<rparr>
                     else result)
              in setCompleteness this result)
         | _ \<Rightarrow>
             result\<lparr>errors := errors result
                      @ [str ''Voltage divider requires at least 2 resistors'']\<rparr>)"

definition analyzeGenericCircuit ::
  "CircuitTopologyAnalyzer \<Rightarrow> CircuitAnalysisResult \<Rightarrow> CircuitAnalysisResult" where
  "analyzeGenericCircuit this result =
     (let result = result\<lparr>completeness :=
            Fin (real (length (detectedComponents this))) / Fin 5\<rparr>
      in result\<lparr>isValid := (Fin (1 / 2) \<le> completeness result)\<rparr>)"

text \<open>The result record \<open>analyzeCircuitTopology\<close> starts from, once the detected circuit
  type has been stored in it.\<close>

definition initialResult :: "CircuitTopologyAnalyzer \<Rightarrow> CircuitAnalysisResult" where
  "initialResult this =
     \<lparr>circuitType = Unknown, components = detectedComponents this, connections = [],
      completeness = Fin 0, missingComponents = [], errors = [], isValid = False,
      gain = None, bandwidth = None\<rparr>
     \<lparr>circuitType := detectCircuitType this\<rparr>"

definition analyzeCircuitTopology :: "CircuitTopologyAnalyzer \<Rightarrow> CircuitAnalysisResult" where
  "analyzeCircuitTopology this =
     (let result = initialResult this
      in case circuitType result of
           NonInvertingOpAmp \<Rightarrow> analyzeNonInvertingOpAmp this result
         | InvertingOpAmp \<Rightarrow> analyzeInvertingOpAmp this result
         | VoltageDivider \<Rightarrow> analyzeVoltageDivider this result
         | _ \<Rightarrow> analyzeGenericCircuit this result)"

text \<open>The two counts the classification is stated over.\<close>

definition resistorCount :: "DetectedComponent list \<Rightarrow> nat" where
  "resistorCount cs = count_list (map comp_type cs) Resistor"

definition opAmpCount :: "DetectedComponent list \<Rightarrow> nat" where
  "opAmpCount cs = count_list (map comp_type cs) OpAmp"

section \<open>BreadboardDepthMapper\<close>

record vec3 =
  vx :: number
  vy :: number
  vz :: number

definition vec3_zero :: vec3 where
  "vec3_zero = \<lparr>vx = Fin 0, vy = Fin 0, vz = Fin 0\<rparr>"

record DepthInfo =
  di_depth :: number
  di_confidence :: number
  di_isValid :: bool

record PositioningResult =
  worldPosition :: vec3
  pr_confidence :: number
  depthInfo :: "DepthInfo option"
  fallbackUsed :: bool

text \<open>A rotation is the quadruple \<open>(x, y, z, w)\<close> of a quaternion.\<close>

record BreadboardCalibration =
  centerPosition :: vec3
  cal_width :: number
  cal_height :: number
  cal_rotation :: "number \<times> number \<times> number \<times> number"
  isCalibrated :: bool

text \<open>
  The depth system is an object of the host. What \<open>getDepthAtScreenPosition\<close> gives back
  is a thrown exception, a value that is false in a condition (\<open>null\<close>, \<open>undefined\<close>), or an
  object with a depth and a confidence (a missing field reads as \<open>undefined\<close>, which
  every comparison treats as it treats \<open>NaN\<close>).
\<close>

datatype DepthReply = DepthThrows | DepthFalsy | DepthReading number number

type_synonym DepthSystem = "number \<Rightarrow> number \<Rightarrow> DepthReply"

text \<open>
  The state of the component. A key of \<open>positionHistory\<close> is the string
  \<open>breadboardX + "_" + breadboardY\<close>; two pairs of numbers give the same string exactly
  when they are the same pair, so the pair itself is the key. \<open>depthCalls\<close> is not a
  field of the source: it records, in order, the arguments of the calls the component
  has made to \<open>depthSystem.getDepthAtScreenPosition\<close>. \<open>positioningResults\<close> records the
  values \<open>positioningResultEvent\<close> has been invoked with.
\<close>

record BreadboardDepthMapper =
  enableDepthAPI :: bool
  depthConfidenceThreshold :: number
  maxDepthDistance :: number
  minDepthDistance :: number
  breadboardWidth :: number
  breadboardHeight :: number
  calibrationDistance :: number
  autoCalibrate :: bool
  useFallbackPositioning :: bool
  fallbackDistance :: number
  enablePositionSmoothing :: bool
  smoothingFactor :: number
  isDepthAPIEnabled :: bool
  depthSystem :: "DepthSystem option"
  calibrationData :: BreadboardCalibration
  positionHistory :: "number \<times> number \<rightharpoonup> vec3 list"
  maxHistorySize :: nat
  depthCalls :: "(number \<times> number) list"
  positioningResults :: "PositioningResult list"

definition calculateWorldPositionFromDepth ::
  "BreadboardDepthMapper \<Rightarrow> number \<Rightarrow> number \<Rightarrow> number \<Rightarrow> vec3" where
  "calculateWorldPositionFromDepth this normalizedX normalizedY depth =
     \<lparr>vx = normalizedX * cal_width (calibrationData this) * Fin (1 / 2),
      vy = normalizedY * cal_height (calibrationData this) * Fin (1 / 2),
      vz = depth\<rparr>"

definition calculateFallbackPosition ::
  "BreadboardDepthMapper \<Rightarrow> number \<Rightarrow> number \<Rightarrow> vec3" where
  "calculateFallbackPosition this normalizedX normalizedY =
     (let distance = (if isCalibrated (calibrationData this)
                      then vz (centerPosition (calibrationData this))
                      else fallbackDistance this)
      in \<lparr>vx = normalizedX * breadboardWidth this * Fin (1 / 2),
          vy = normalizedY * breadboardHeight this * Fin (1 / 2),
          vz = distance\<rparr>)"

text \<open>The loop of \<open>applyPositionSmoothing\<close>: \<open>i\<close> is the loop variable, \<open>smoothedPosition\<close>
  and \<open>totalWeight\<close> are the two accumulators.\<close>

function smoothingLoop ::
  "vec3 list \<Rightarrow> number \<Rightarrow> nat \<Rightarrow> vec3 \<Rightarrow> number \<Rightarrow> vec3 \<times> number" where
  "smoothingLoop history factor i smoothedPosition totalWeight =
     (if i < length history then
        let weight = Math_pow factor (length history - 1 - i)
        in smoothingLoop history factor (i + 1)
             \<lparr>vx = vx smoothedPosition + vx (history ! i) * weight,
              vy = vy smoothedPosition + vy (history ! i) * weight,
              vz = vz smoothedPosition + vz (history ! i) * weight\<rparr>
             (totalWeight + weight)
      else (smoothedPosition, totalWeight))"
  by pat_completeness auto
termination
  by (relation "measure (\<lambda>(history, factor, i, smoothedPosition, totalWeight).
        length history - i)") auto

declare smoothingLoop.simps [simp del]

definition applyPositionSmoothing ::
  "BreadboardDepthMapper \<Rightarrow> number \<Rightarrow> number \<Rightarrow> vec3 \<Rightarrow> BreadboardDepthMapper \<times> vec3"
where
  "applyPositionSmoothing this breadboardX breadboardY newPosition =
     (let key = (breadboardX, breadboardY);
          stored = (case positionHistory this key of None \<Rightarrow> [] | Some h \<Rightarrow> h);
          pushed = stored @ [newPosition];
          history = (if maxHistorySize this < length pushed then tl pushed else pushed);
          this = this\<lparr>positionHistory := (positionHistory this)(key \<mapsto> history)\<rparr>
      in if length history = 1 then (this, newPosition)
         else
           (case smoothingLoop history (smoothingFactor this) 0 vec3_zero (Fin 0) of
              (smoothedPosition, totalWeight) \<Rightarrow>
                (this, \<lparr>vx = vx smoothedPosition / totalWeight,
                        vy = vy smoothedPosition / totalWeight,
                        vz = vz smoothedPosition / totalWeight\<rparr>)))"

text \<open>The part of \<open>mapBreadboardToWorldPosition\<close> that reads the depth: the position, the
  confidence, the depth information and the fallback flag it settles on.\<close>

definition positionFromReply ::
  "BreadboardDepthMapper \<Rightarrow> number \<Rightarrow> number \<Rightarrow> DepthReply option
     \<Rightarrow> vec3 \<times> number \<times> DepthInfo option \<times> bool" where
  "positionFromReply this normalizedX normalizedY reply =
     (case reply of
        None \<Rightarrow>
          (calculateFallbackPosition this normalizedX normalizedY, Fin (4 / 10), None, True)
      | Some DepthThrows \<Rightarrow>
          (calculateFallbackPosition this normalizedX normalizedY, Fin (3 / 10), None, True)
      | Some DepthFalsy \<Rightarrow>
          (calculateFallbackPosition this normalizedX normalizedY, Fin (1 / 2),
           Some \<lparr>di_depth = fallbackDistance this, di_confidence = Fin (3 / 10),
                 di_isValid = False\<rparr>, True)
      | Some (DepthReading d c) \<Rightarrow>
          if Fin 0 < d \<and> depthConfidenceThreshold this \<le> c then
            (calculateWorldPositionFromDepth this normalizedX normalizedY d, c,
             Some \<lparr>di_depth = d, di_confidence = c, di_isValid = True\<rparr>, False)
          else
            (calculateFallbackPosition this normalizedX normalizedY, Fin (1 / 2),
             Some \<lparr>di_depth = fallbackDistance this, di_confidence = Fin (3 / 10),
                   di_isValid = False\<rparr>, True))"

definition mapBreadboardToWorldPosition ::
  "BreadboardDepthMapper \<Rightarrow> number \<Rightarrow> number \<Rightarrow> BreadboardDepthMapper \<times> PositioningResult"
where
  "mapBreadboardToWorldPosition this breadboardX breadboardY =
     (let normalizedX = (breadboardX - Fin 500) / Fin 500;
          normalizedY = (breadboardY - Fin 500) / Fin 500;
          screenX = normalizedX * Fin (1 / 2) + Fin (1 / 2);
          screenY = normalizedY * Fin (1 / 2) + Fin (1 / 2);
          (this, reply) =
            (case depthSystem this of
               Some ds \<Rightarrow>
                 if isDepthAPIEnabled this then
                   (this\<lparr>depthCalls := depthCalls this @ [(screenX, screenY)]\<rparr>,
                    Some (ds screenX screenY))
                 else (this, None)
             | None \<Rightarrow> (this, None));
          (position, confidence, info, fallback) =
            positionFromReply this normalizedX normalizedY reply;
          (this, position) =
            (if enablePositionSmoothing this
             then applyPositionSmoothing this breadboardX breadboardY position
             else (this, position));
          result = \<lparr>worldPosition = position, pr_confidence = confidence,
                    depthInfo = info, fallbackUsed = fallback\<rparr>
      in (this\<lparr>positioningResults := positioningResults this @ [result]\<rparr>, result))"

definition clearPositionHistory :: "BreadboardDepthMapper \<Rightarrow> BreadboardDepthMapper" where
  "clearPositionHistory this = this\<lparr>positionHistory := Map.empty\<rparr>"

definition getPositionHistory ::
  "BreadboardDepthMapper \<Rightarrow> number \<Rightarrow> number \<Rightarrow> vec3 list" where
  "getPositionHistory this breadboardX breadboardY =
     (case positionHistory this (breadboardX, breadboardY) of None \<Rightarrow> [] | Some h \<Rightarrow> h)"

text \<open>A sequence of calls of \<open>mapBreadboardToWorldPosition\<close>, each with its two
  arguments; the results are dropped.\<close>

fun mapCalls ::
  "BreadboardDepthMapper \<Rightarrow> (number \<times> number) list \<Rightarrow> BreadboardDepthMapper" where
  "mapCalls this [] = this"
| "mapCalls this ((breadboardX, breadboardY) # calls) =
     mapCalls (fst (mapBreadboardToWorldPosition this breadboardX breadboardY)) calls"

text \<open>Every stored history holds at most \<open>maxHistorySize\<close> positions.\<close>

definition historyBounded :: "BreadboardDepthMapper \<Rightarrow> bool" where
  "historyBounded this =
     (\<forall>key h. positionHistory this key = Some h \<longrightarrow> length h \<le> maxHistorySize this)"

text \<open>The weight of the position at index \<open>i\<close> in a history of \<open>n\<close> positions.\<close>

definition smoothingWeight :: "number \<Rightarrow> nat \<Rightarrow> nat \<Rightarrow> number" where
  "smoothingWeight factor n i = Math_pow factor (n - 1 - i)"

text \<open>
  \<open>getDepthAtPosition\<close>, which the overlay component calls. \<open>global\<close> is the value of
  \<open>global.depthSystem\<close>, the depth system of the host if it has one. When the component
  has no depth system yet it takes the host's; \<open>configureDepthSystem\<close> then only calls
  setters of the host object inside a \<open>try\<close>. A confidence that is false in a condition
  (\<open>undefined\<close>, \<open>NaN\<close>, zero) is reported as \<open>0.5\<close>.
\<close>

definition getDepthAtPosition ::
  "DepthSystem option \<Rightarrow> BreadboardDepthMapper \<Rightarrow> number \<Rightarrow> number
     \<Rightarrow> BreadboardDepthMapper \<times> DepthInfo option" where
  "getDepthAtPosition global this screenX screenY =
     (if \<not> isDepthAPIEnabled this then (this, None)
      else
        let this = (if depthSystem this = None \<and> global \<noteq> None
                    then this\<lparr>depthSystem := global\<rparr> else this)
        in case depthSystem this of
             None \<Rightarrow> (this, None)
           | Some ds \<Rightarrow>
               (let this = this\<lparr>depthCalls := depthCalls this @ [(screenX, screenY)]\<rparr>
                in case ds screenX screenY of
                     DepthReading d c \<Rightarrow>
                       if Fin 0 < d then
                         (this, Some \<lparr>di_depth = d,
                            di_confidence = (if c = NaN \<or> c = Fin 0 then Fin (1 / 2) else c),
                            di_isValid = (depthConfidenceThreshold this \<le> c)\<rparr>)
                       else (this, None)
                   | _ \<Rightarrow> (this, None)))"

section \<open>BreadboardAROverlay\<close>

text \<open>
  The overlay component keeps its overlays in the map \<open>activeOverlays\<close> and numbers them
  with \<open>overlayCounter\<close>. What it does to the host is recorded in four lists: the scene
  objects it has created (\<open>scene\<close>; a scene object is referred to by its index), the
  tweens it has started (\<open>tweens\<close>), and the values its two events have been invoked with
  (\<open>overlayCreated\<close>, \<open>overlayRemoved\<close>). Meshes, text components, colours written to
  materials and console output are rendering of the host and are not recorded. The
  \<open>@input\<close> materials have the type \<open>Material\<close>: they are assigned, so \<open>clone\<close> succeeds
  and the fallback \<open>createDefaultMaterial\<close> is not taken. \<open>overlayDepthAPIEnabled\<close> is the
  field \<open>isDepthAPIEnabled\<close> of this component and \<open>globalDepthSystem\<close> is the value of
  \<open>global.depthSystem\<close>.

  The repository holds two versions of the component. They differ in how a hole
  highlight is built (one method in the older version, a choice of three in the newer
  one, which is modelled); \<open>removeOverlay\<close>, \<open>showPlacementSequence\<close>,
  \<open>showPlacementGuidance\<close> and \<open>showComponentLabel\<close> are the same text in both.
\<close>

datatype OverlayType =
  HoleHighlight | ComponentPlacement | ConnectionLine | CircuitPath | ComponentLabel

type_synonym vec4 = "number \<times> number \<times> number \<times> number"

datatype Material = Asset jsstring | Clone Material

record HighlightConfig =
  cfg_color :: vec4
  cfg_size :: number
  cfg_pulseSpeed :: number
  cfg_duration :: number
  cfg_fadeInDuration :: number
  cfg_fadeOutDuration :: number

record AROverlayElement =
  ov_id :: jsstring
  ov_type :: OverlayType
  ov_position :: vec3
  ov_rotation :: "number \<times> number \<times> number \<times> number"
  ov_scale :: vec3
  ov_config :: HighlightConfig
  ov_isVisible :: bool
  ov_sceneObject :: "nat option"
  ov_material :: "Material option"

record SceneObject =
  so_name :: jsstring
  so_enabled :: bool
  so_worldPosition :: vec3
  so_localScale :: vec3

datatype Tween = PulseTween jsstring | FadeInTween jsstring | FadeOutTween jsstring

record BreadboardAROverlay =
  depthMapper :: "BreadboardDepthMapper option"
  highlightSize :: number
  highlightPulseSpeed :: number
  connectionLineWidth :: number
  labelOffset :: number
  highlightMethod :: jsstring
  outlineThickness :: number
  fresnelIntensity :: number
  highlightMaterial :: Material
  connectionMaterial :: Material
  labelMaterial :: Material
  outlineMaterial :: Material
  fresnelMaterial :: Material
  activeOverlays :: "jsstring \<rightharpoonup> AROverlayElement"
  overlayCounter :: nat
  overlayDepthAPIEnabled :: bool
  globalDepthSystem :: "DepthSystem option"
  scene :: "SceneObject list"
  tweens :: "Tween list"
  overlayCreated :: "AROverlayElement list"
  overlayRemoved :: "jsstring list"

text \<open>The decimal digits of a counter value, as a template string renders it.\<close>

function natToString :: "nat \<Rightarrow> jsstring" where
  "natToString n =
     (if n < 10 then [48 + n] else natToString (n div 10) @ [48 + n mod 10])"
  by pat_completeness auto
termination
  by (relation "measure (\<lambda>n. n)") auto

declare natToString.simps [simp del]

definition colorPresets :: "jsstring \<Rightarrow> vec4 option" where
  "colorPresets name =
     (if name = str ''placement'' then Some (Fin 0, Fin 1, Fin 0, Fin (8 / 10))
      else if name = str ''connection'' then Some (Fin 0, Fin 0, Fin 1, Fin (6 / 10))
      else if name = str ''warning'' then Some (Fin 1, Fin 0, Fin 0, Fin (8 / 10))
      else if name = str ''info'' then Some (Fin 1, Fin 1, Fin 0, Fin (7 / 10))
      else if name = str ''circuit'' then Some (Fin 1, Fin (1 / 2), Fin 0, Fin (6 / 10))
      else None)"

text \<open>\<open>colorPresets.get(color) || colorPresets.get(fallback)\<close>, for a fallback that is a
  key of the map.\<close>

definition presetColor :: "jsstring \<Rightarrow> jsstring \<Rightarrow> vec4" where
  "presetColor color fallback =
     (case colorPresets color of Some v \<Rightarrow> v | None \<Rightarrow> the (colorPresets fallback))"

text \<open>\<open>global.scene.createSceneObject(name)\<close> followed by the two calls that place the
  object: the new object's index is returned.\<close>

definition createSceneObject ::
  "BreadboardAROverlay \<Rightarrow> jsstring \<Rightarrow> vec3 \<Rightarrow> vec3 \<Rightarrow> BreadboardAROverlay \<times> nat" where
  "createSceneObject this name worldPos localScale =
     (this\<lparr>scene := scene this
         @ [\<lparr>so_name = name, so_enabled = True, so_worldPosition = worldPos,
              so_localScale = localScale\<rparr>]\<rparr>,
      length (scene this))"

text \<open>\<open>breadboardToWorldPosition\<close>. Everything that can throw is inside its \<open>try\<close>, and
  the handler only prints; a thrown exception leaves \<open>worldZ\<close> at the base distance.\<close>

definition breadboardToWorldPosition ::
  "BreadboardAROverlay \<Rightarrow> number \<Rightarrow> number \<Rightarrow> BreadboardAROverlay \<times> vec3" where
  "breadboardToWorldPosition this breadboardX breadboardY =
     (let normalizedX = (breadboardX - Fin 500) / Fin 500;
          normalizedY = (breadboardY - Fin 500) / Fin 500;
          baseDistance = Fin (1 / 2);
          worldX = normalizedX * Fin (2 / 10);
          worldY = normalizedY * Fin (15 / 100);
          screenX = (normalizedX + Fin 1) * Fin (1 / 2);
          screenY = (normalizedY + Fin 1) * Fin (1 / 2);
          (this, worldZ) =
            (if overlayDepthAPIEnabled this then
               (case depthMapper this of
                  Some mapper \<Rightarrow>
                    (case getDepthAtPosition (globalDepthSystem this) mapper screenX screenY of
                       (mapper, info) \<Rightarrow>
                         (this\<lparr>depthMapper := Some mapper\<rparr>,
                          case info of
                            Some i \<Rightarrow> if di_isValid i then di_depth i else baseDistance
                          | None \<Rightarrow> baseDistance))
                | None \<Rightarrow>
                    (case globalDepthSystem this of
                       Some ds \<Rightarrow>
                         (this,
                          case ds screenX screenY of
                            DepthReading d c \<Rightarrow> if Fin 0 < d then d else baseDistance
                          | _ \<Rightarrow> baseDistance)
                     | None \<Rightarrow> (this, baseDistance)))
             else (this, baseDistance))
      in (this, \<lparr>vx = worldX, vy = worldY, vz = worldZ\<rparr>))"

text \<open>\<open>animateHoleHighlight\<close>: without a scene object or a material nothing is started;
  otherwise the pulse and the fade-in.\<close>

definition animateHoleHighlight ::
  "BreadboardAROverlay \<Rightarrow> AROverlayElement \<Rightarrow> BreadboardAROverlay" where
  "animateHoleHighlight this overlay =
     (if ov_sceneObject overlay = None \<or> ov_material overlay = None then this
      else this\<lparr>tweens := tweens this
             @ [PulseTween (ov_id overlay), FadeInTween (ov_id overlay)]\<rparr>)"

text \<open>The end of each of the three \<open>create...Highlight\<close> methods, which is the same text in
  all of them: the overlay element is built, stored, announced and animated.\<close>

definition storeHoleHighlight ::
  "BreadboardAROverlay \<Rightarrow> jsstring \<Rightarrow> vec3 \<Rightarrow> vec4 \<Rightarrow> number \<Rightarrow> nat \<Rightarrow> Material
     \<Rightarrow> BreadboardAROverlay \<times> jsstring" where
  "storeHoleHighlight this overlayId worldPos colorVec duration highlightObject material =
     (let overlay =
            \<lparr>ov_id = overlayId, ov_type = HoleHighlight, ov_position = worldPos,
             ov_rotation = (Fin 0, Fin 0, Fin 0, Fin 1),
             ov_scale = \<lparr>vx = highlightSize this, vy = highlightSize this,
                          vz = highlightSize this\<rparr>,
             ov_config =
               \<lparr>cfg_color = colorVec, cfg_size = highlightSize this,
                cfg_pulseSpeed = highlightPulseSpeed this, cfg_duration = duration,
                cfg_fadeInDuration = Fin 500, cfg_fadeOutDuration = Fin 500\<rparr>,
             ov_isVisible = True, ov_sceneObject = Some highlightObject,
             ov_material = Some material\<rparr>;
          this = this\<lparr>activeOverlays := (activeOverlays this)(overlayId \<mapsto> overlay)\<rparr>;
          this = this\<lparr>overlayCreated := overlayCreated this @ [overlay]\<rparr>;
          this = animateHoleHighlight this overlay
      in (this, overlayId))"

definition createInvertedHullHighlight ::
  "BreadboardAROverlay \<Rightarrow> jsstring \<Rightarrow> vec3 \<Rightarrow> jsstring \<Rightarrow> number
     \<Rightarrow> BreadboardAROverlay \<times> jsstring" where
  "createInvertedHullHighlight this overlayId worldPos color duration =
     (let (this, highlightObject) =
            createSceneObject this (str ''HoleHighlight_'' @ overlayId) worldPos
              \<lparr>vx = highlightSize this, vy = highlightSize this, vz = highlightSize this\<rparr>;
          material = Clone (highlightMaterial this);
          colorVec = presetColor color (str ''placement'');
          outlineScale = highlightSize this + outlineThickness this;
          (this, outlineObject) =
            createSceneObject this (str ''HoleOutline_'' @ overlayId) worldPos
              \<lparr>vx = outlineScale, vy = outlineScale, vz = outlineScale\<rparr>
      in storeHoleHighlight this overlayId worldPos colorVec duration highlightObject material)"

definition createFresnelGlowHighlight ::
  "BreadboardAROverlay \<Rightarrow> jsstring \<Rightarrow> vec3 \<Rightarrow> jsstring \<Rightarrow> number
     \<Rightarrow> BreadboardAROverlay \<times> jsstring" where
  "createFresnelGlowHighlight this overlayId worldPos color duration =
     (let (this, highlightObject) =
            createSceneObject this (str ''HoleHighlight_'' @ overlayId) worldPos
              \<lparr>vx = highlightSize this, vy = highlightSize this, vz = highlightSize this\<rparr>;
          material = Clone (fresnelMaterial this);
          colorVec = presetColor color (str ''placement'')
      in storeHoleHighlight this overlayId worldPos colorVec duration highlightObject material)"

definition createSimpleHighlight ::
  "BreadboardAROverlay \<Rightarrow> jsstring \<Rightarrow> vec3 \<Rightarrow> jsstring \<Rightarrow> number
     \<Rightarrow> BreadboardAROverlay \<times> jsstring" where
  "createSimpleHighlight this overlayId worldPos color duration =
     (let (this, highlightObject) =
            createSceneObject this (str ''HoleHighlight_'' @ overlayId) worldPos
              \<lparr>vx = highlightSize this, vy = highlightSize this, vz = highlightSize this\<rparr>;
          material = Clone (highlightMaterial this);
          colorVec = presetColor color (str ''placement'')
      in storeHoleHighlight this overlayId worldPos colorVec duration highlightObject material)"

definition highlightBreadboardHole ::
  "BreadboardAROverlay \<Rightarrow> number \<Rightarrow> number \<Rightarrow> jsstring \<Rightarrow> number
     \<Rightarrow> BreadboardAROverlay \<times> jsstring" where
  "highlightBreadboardHole this breadboardX breadboardY color duration =
     (let overlayId = str ''hole_'' @ natToString (overlayCounter this);
          this = this\<lparr>overlayCounter := overlayCounter this + 1\<rparr>;
          (this, worldPos) = breadboardToWorldPosition this breadboardX breadboardY
      in if highlightMethod this = str ''inverted_hull'' then
           createInvertedHullHighlight this overlayId worldPos color duration
         else if highlightMethod this = str ''fresnel_glow'' then
           createFresnelGlowHighlight this overlayId worldPos color duration
         else createSimpleHighlight this overlayId worldPos color duration)"

definition showComponentLabel ::
  "BreadboardAROverlay \<Rightarrow> DetectedComponent \<Rightarrow> BreadboardHole option \<Rightarrow> BreadboardAROverlay"
where
  "showComponentLabel this component targetHole =
     (let (this, position) =
            (case targetHole of
               Some hole \<Rightarrow> breadboardToWorldPosition this (hole_x hole) (hole_y hole)
             | None \<Rightarrow>
                 breadboardToWorldPosition this (fst (comp_position component))
                   (snd (comp_position component)));
          labelPos = \<lparr>vx = vx position, vy = vy position + labelOffset this,
                       vz = vz position\<rparr>;
          overlayId = str ''label_'' @ natToString (overlayCounter this);
          this = this\<lparr>overlayCounter := overlayCounter this + 1\<rparr>;
          (this, labelObject) =
            createSceneObject this (str ''ComponentLabel_'' @ overlayId) labelPos
              \<lparr>vx = Fin 1, vy = Fin 1, vz = Fin 1\<rparr>;
          overlay =
            \<lparr>ov_id = overlayId, ov_type = ComponentLabel, ov_position = labelPos,
             ov_rotation = (Fin 0, Fin 0, Fin 0, Fin 1),
             ov_scale = \<lparr>vx = Fin 1, vy = Fin 1, vz = Fin 1\<rparr>,
             ov_config =
               \<lparr>cfg_color = (Fin 1, Fin 1, Fin 1, Fin (9 / 10)), cfg_size = Fin (2 / 100),
                cfg_pulseSpeed = Fin 0, cfg_duration = Fin 10000,
                cfg_fadeInDuration = Fin 500, cfg_fadeOutDuration = Fin 500\<rparr>,
             ov_isVisible = True, ov_sceneObject = Some labelObject, ov_material = None\<rparr>;
          this = this\<lparr>activeOverlays := (activeOverlays this)(overlayId \<mapsto> overlay)\<rparr>
      in this\<lparr>overlayCreated := overlayCreated this @ [overlay]\<rparr>)"

definition showPlacementGuidance ::
  "BreadboardAROverlay \<Rightarrow> DetectedComponent \<Rightarrow> BreadboardHole \<Rightarrow> BreadboardAROverlay" where
  "showPlacementGuidance this component targetHole =
     (let (this, overlayId) =
            highlightBreadboardHole this (hole_x targetHole) (hole_y targetHole)
              (str ''placement'') (Fin 8000)
      in showComponentLabel this component (Some targetHole))"



text \<open>Disabling a scene object: \<open>overlay.sceneObject.enabled = false\<close>.\<close>

definition disableSceneObject ::
  "BreadboardAROverlay \<Rightarrow> nat option \<Rightarrow> BreadboardAROverlay" where
  "disableSceneObject this handle =
     (case handle of
        Some i \<Rightarrow>
          if i < length (scene this)
          then this\<lparr>scene := (scene this)[i := (scene this ! i)\<lparr>so_enabled := False\<rparr>]\<rparr>
          else this
      | None \<Rightarrow> this)"

text \<open>What both branches of \<open>removeOverlay\<close> do once the overlay goes: at once when it has
  no material, in the \<open>onComplete\<close> callback of the fade-out tween when it has one.\<close>

definition finishRemoval ::
  "BreadboardAROverlay \<Rightarrow> AROverlayElement \<Rightarrow> jsstring \<Rightarrow> BreadboardAROverlay" where
  "finishRemoval this overlay overlayId =
     (let this = disableSceneObject this (ov_sceneObject overlay);
          this = this\<lparr>activeOverlays := (activeOverlays this)(overlayId := None)\<rparr>
      in this\<lparr>overlayRemoved := overlayRemoved this @ [overlayId]\<rparr>)"

definition removeOverlay ::
  "BreadboardAROverlay \<Rightarrow> jsstring \<Rightarrow> BreadboardAROverlay \<times> bool" where
  "removeOverlay this overlayId =
     (case activeOverlays this overlayId of
        None \<Rightarrow> (this, False)
      | Some found \<Rightarrow>
          (let overlay = found\<lparr>ov_isVisible := False\<rparr>;
               this = this\<lparr>activeOverlays := (activeOverlays this)(overlayId \<mapsto> overlay)\<rparr>
           in case ov_material overlay of
                Some material \<Rightarrow>
                  (this\<lparr>tweens := tweens this @ [FadeOutTween overlayId]\<rparr>, True)
              | None \<Rightarrow> (finishRemoval this overlay overlayId, True)))"

section \<open>Example inputs\<close>

text \<open>Concrete components, holes and depth replies, and the three components in the
  state their field initialisers (and \<open>initializeCalibration\<close>) leave them in, used to
  run the definitions on concrete inputs.\<close>

definition exampleComponent :: "ComponentType \<Rightarrow> jsstring option \<Rightarrow> DetectedComponent" where
  "exampleComponent t v =
     \<lparr>comp_type = t, comp_position = (Fin 500, Fin 500), comp_confidence = Fin (9 / 10),
      comp_boundingBox = None, comp_value = v, comp_pins = None\<rparr>"

definition newAnalyzer :: "DetectedComponent list \<Rightarrow> CircuitTopologyAnalyzer" where
  "newAnalyzer cs =
     \<lparr>enableRealTimeAnalysis = True, analysisConfidenceThreshold = Fin (7 / 10),
      maxConnectionDistance = Fin 50, enableGainCalculation = True,
      targetCircuitType = str ''non_inverting_op_amp'', enableAutoDetection = True,
      requirePowerConnections = True, detectedComponents = cs, detectedConnections = [],
      currentAnalysis = None, analysisHistory = []\<rparr>"

definition exampleA :: CircuitTopologyAnalyzer where
  "exampleA = newAnalyzer [exampleComponent Resistor None, exampleComponent OpAmp None,
       exampleComponent Resistor None]"

definition exampleB :: CircuitTopologyAnalyzer where
  "exampleB = newAnalyzer [exampleComponent Wire None, exampleComponent Resistor None,
       exampleComponent Resistor None, exampleComponent OpAmp None]"

definition newBreadboardDepthMapper :: BreadboardDepthMapper where
  "newBreadboardDepthMapper =
     \<lparr>enableDepthAPI = True, depthConfidenceThreshold = Fin (7 / 10),
      maxDepthDistance = Fin 2, minDepthDistance = Fin (1 / 10),
      breadboardWidth = Fin (2 / 10), breadboardHeight = Fin (15 / 100),
      calibrationDistance = Fin (1 / 2), autoCalibrate = True,
      useFallbackPositioning = True, fallbackDistance = Fin (1 / 2),
      enablePositionSmoothing = True, smoothingFactor = Fin (1 / 10),
      isDepthAPIEnabled = False, depthSystem = None,
      calibrationData =
        \<lparr>centerPosition = \<lparr>vx = Fin 0, vy = Fin 0, vz = Fin (1 / 2)\<rparr>,
         cal_width = Fin (2 / 10), cal_height = Fin (15 / 100),
         cal_rotation = (Fin 0, Fin 0, Fin 0, Fin 1), isCalibrated = False\<rparr>,
      positionHistory = Map.empty, maxHistorySize = 10, depthCalls = [],
      positioningResults = []\<rparr>"


definition exampleVec :: "real \<Rightarrow> vec3" where
  "exampleVec a = \<lparr>vx = Fin a, vy = Fin (2 * a), vz = Fin 1\<rparr>"

definition exampleSmoothedMapper :: BreadboardDepthMapper where
  "exampleSmoothedMapper =
     newBreadboardDepthMapper
       \<lparr>positionHistory := [(Fin 100, Fin 200) \<mapsto> [exampleVec 0]]\<rparr>"


definition newBreadboardAROverlay :: BreadboardAROverlay where
  "newBreadboardAROverlay =
     \<lparr>depthMapper = Some newBreadboardDepthMapper, highlightSize = Fin (2 / 100),
      highlightPulseSpeed = Fin 1, connectionLineWidth = Fin (5 / 1000),
      labelOffset = Fin (5 / 100), highlightMethod = str ''inverted_hull'',
      outlineThickness = Fin (2 / 1000), fresnelIntensity = Fin 2,
      highlightMaterial = Asset (str ''Highlight''),
      connectionMaterial = Asset (str ''Connection''),
      labelMaterial = Asset (str ''Label''), outlineMaterial = Asset (str ''Outline''),
      fresnelMaterial = Asset (str ''Fresnel''), activeOverlays = Map.empty,
      overlayCounter = 0, overlayDepthAPIEnabled = False, globalDepthSystem = None,
      scene = [], tweens = [], overlayCreated = [], overlayRemoved = []\<rparr>"


definition exampleLabel :: AROverlayElement where
  "exampleLabel =
     \<lparr>ov_id = str ''label_0'', ov_type = ComponentLabel,
      ov_position = \<lparr>vx = Fin 0, vy = Fin (5 / 100), vz = Fin (1 / 2)\<rparr>,
      ov_rotation = (Fin 0, Fin 0, Fin 0, Fin 1),
      ov_scale = \<lparr>vx = Fin 1, vy = Fin 1, vz = Fin 1\<rparr>,
      ov_config =
        \<lparr>cfg_color = (Fin 1, Fin 1, Fin 1, Fin (9 / 10)), cfg_size = Fin (2 / 100),
         cfg_pulseSpeed = Fin 0, cfg_duration = Fin 10000,
         cfg_fadeInDuration = Fin 500, cfg_fadeOutDuration = Fin 500\<rparr>,
      ov_isVisible = True, ov_sceneObject = None, ov_material = None\<rparr>"

definition exampleLabelledOverlay :: BreadboardAROverlay where
  "exampleLabelledOverlay =
     newBreadboardAROverlay
       \<lparr>activeOverlays := [str ''label_0'' \<mapsto> exampleLabel], overlayCounter := 1\<rparr>"

section \<open>Circuit classification\<close>

lemma count_list_map_filter:
  "count_list (map f xs) a = length (filter (\<lambda>x. f x = a) xs)"
  by (induction xs) simp_all

lemma detectCircuitType_counts:
  "detectCircuitType a =
     (if 2 \<le> resistorCount (detectedComponents a) \<and> 1 \<le> opAmpCount (detectedComponents a)
      then NonInvertingOpAmp
      else if 2 \<le> resistorCount (detectedComponents a) \<and> opAmpCount (detectedComponents a) = 0
      then VoltageDivider
      else Unknown)"
  by (simp add: detectCircuitType_def resistorCount_def opAmpCount_def count_list_map_filter Let_def)

text \<open>
  Claim C1. \<open>detectCircuitType\<close> depends on the detected components only through the
  number of resistors and the number of op amps: it returns \<open>NonInvertingOpAmp\<close> when
  there are at least two resistors and at least one op amp, \<open>VoltageDivider\<close> when there
  are at least two resistors and no op amp, and \<open>Unknown\<close> otherwise; two analyzers whose
  component lists have the same two counts are classified identically.
\<close>

theorem detectCircuitType_by_counts:
  "detectCircuitType a =
     (if 2 \<le> resistorCount (detectedComponents a) \<and> 1 \<le> opAmpCount (detectedComponents a)
      then NonInvertingOpAmp
      else if 2 \<le> resistorCount (detectedComponents a) \<and> opAmpCount (detectedComponents a) = 0
      then VoltageDivider
      else Unknown)
   \<and> (resistorCount (detectedComponents a) = resistorCount (detectedComponents b)
        \<and> opAmpCount (detectedComponents a) = opAmpCount (detectedComponents b)
      \<longrightarrow> detectCircuitType a = detectCircuitType b)"
  by (simp add: detectCircuitType_counts)

theorem detectCircuitType_by_counts_witness:
  "resistorCount (detectedComponents exampleA) = resistorCount (detectedComponents exampleB)
   \<and> opAmpCount (detectedComponents exampleA) = opAmpCount (detectedComponents exampleB)
   \<and> detectCircuitType exampleA = NonInvertingOpAmp
   \<and> detectCircuitType exampleB = NonInvertingOpAmp"
  using detectCircuitType_by_counts [of exampleA exampleB]
  by (auto simp: exampleA_def exampleB_def newAnalyzer_def exampleComponent_def
      resistorCount_def opAmpCount_def)

lemma circuitType_setCompleteness [simp]:
  "circuitType (setCompleteness a r) = circuitType r"
  by (simp add: setCompleteness_def Let_def)

lemma circuitType_analyzeNonInvertingOpAmp:
  "circuitType (analyzeNonInvertingOpAmp a r) = circuitType r"
  by (simp add: analyzeNonInvertingOpAmp_def Let_def split: list.split prod.split)

lemma circuitType_analyzeVoltageDivider:
  "circuitType (analyzeVoltageDivider a r) = circuitType r"
  by (simp add: analyzeVoltageDivider_def Let_def split: list.split)

lemma circuitType_analyzeGenericCircuit:
  "circuitType (analyzeGenericCircuit a r) = circuitType r"
  by (simp add: analyzeGenericCircuit_def Let_def)

lemma detectCircuitType_not_inverting: "detectCircuitType a \<noteq> InvertingOpAmp"
  by (simp add: detectCircuitType_def Let_def)

lemma circuitType_initialResult: "circuitType (initialResult a) = detectCircuitType a"
  by (simp add: initialResult_def)

text \<open>
  Claim C6. \<open>detectCircuitType\<close> never returns \<open>InvertingOpAmp\<close>: the test that guards
  that branch is the test of the \<open>NonInvertingOpAmp\<close> branch before it, so it is only
  reached when the test is false. Hence the \<open>switch\<close> of \<open>analyzeCircuitTopology\<close> never
  selects \<open>analyzeInvertingOpAmp\<close>: the analysis is that of one of the three other
  branches, and the circuit type of its result is never \<open>InvertingOpAmp\<close>.
\<close>

theorem inverting_branch_unreachable:
  "detectCircuitType a \<noteq> InvertingOpAmp
   \<and> analyzeCircuitTopology a =
       (case detectCircuitType a of
          NonInvertingOpAmp \<Rightarrow> analyzeNonInvertingOpAmp a (initialResult a)
        | VoltageDivider \<Rightarrow> analyzeVoltageDivider a (initialResult a)
        | _ \<Rightarrow> analyzeGenericCircuit a (initialResult a))
   \<and> circuitType (analyzeCircuitTopology a) \<noteq> InvertingOpAmp"
proof -
  have d: "detectCircuitType a \<noteq> InvertingOpAmp"
    by (rule detectCircuitType_not_inverting)
  have e: "analyzeCircuitTopology a =
       (case detectCircuitType a of
          NonInvertingOpAmp \<Rightarrow> analyzeNonInvertingOpAmp a (initialResult a)
        | VoltageDivider \<Rightarrow> analyzeVoltageDivider a (initialResult a)
        | _ \<Rightarrow> analyzeGenericCircuit a (initialResult a))"
    using d by (simp add: analyzeCircuitTopology_def circuitType_initialResult Let_def
        split: CircuitType.split)
  have "circuitType (analyzeCircuitTopology a) = detectCircuitType a"
    by (simp add: e circuitType_analyzeNonInvertingOpAmp circuitType_analyzeVoltageDivider
        circuitType_analyzeGenericCircuit circuitType_initialResult split: CircuitType.split)
  with d e show ?thesis by simp
qed

theorem inverting_branch_unreachable_witness:
  "detectCircuitType exampleA = NonInvertingOpAmp
   \<and> analyzeCircuitTopology exampleA =
       analyzeNonInvertingOpAmp exampleA (initialResult exampleA)
   \<and> circuitType (analyzeCircuitTopology exampleA) = NonInvertingOpAmp"
proof -
  have "detectCircuitType exampleA = NonInvertingOpAmp"
    by (simp add: detectCircuitType_def exampleA_def newAnalyzer_def exampleComponent_def)
  then show ?thesis
    using inverting_branch_unreachable [of exampleA]
    by (simp add: circuitType_analyzeNonInvertingOpAmp circuitType_initialResult)
qed

section \<open>Gain formulas\<close>












section \<open>Position smoothing and depth lookup\<close>

lemma times_number_commute: "(a::number) * b = b * a"
  by (cases a; cases b; simp)

lemma sum_Fin: "finite A \<Longrightarrow> (\<Sum>i\<in>A. Fin (g i)) = Fin (\<Sum>i\<in>A. g i)"
  by (induction A rule: finite_induct) (simp_all add: zero_number_def)

lemma Math_pow_Fin: "Math_pow (Fin s) k = Fin (s ^ k)"
  by (cases k) simp_all

lemma smoothingLoop_sums:
  "i \<le> length h \<Longrightarrow>
   smoothingLoop h f i sp tw =
     (\<lparr>vx = vx sp + (\<Sum>j = i..<length h. vx (h ! j) * smoothingWeight f (length h) j),
       vy = vy sp + (\<Sum>j = i..<length h. vy (h ! j) * smoothingWeight f (length h) j),
       vz = vz sp + (\<Sum>j = i..<length h. vz (h ! j) * smoothingWeight f (length h) j)\<rparr>,
      tw + (\<Sum>j = i..<length h. smoothingWeight f (length h) j))"
proof (induction h f i sp tw rule: smoothingLoop.induct)
  case (1 history factor i smoothedPosition totalWeight)
  show ?case
  proof (cases "i < length history")
    case True
    then have le: "i + 1 \<le> length history" by simp
    from True show ?thesis
      apply (subst smoothingLoop.simps)
      apply (simp only: if_True Let_def "1.IH" [OF True refl le])
      apply (simp add: sum.atLeast_Suc_lessThan add.assoc smoothingWeight_def)
      done
  next
    case False
    with "1.prems" have "i = length history" by simp
    then show ?thesis
      by (subst smoothingLoop.simps) simp
  qed
qed

lemma applyPositionSmoothing_history:
  "positionHistory (fst (applyPositionSmoothing this bX bY p)) =
     (positionHistory this)((bX, bY) \<mapsto>
        (let pushed = getPositionHistory this bX bY @ [p]
         in if maxHistorySize this < length pushed then tl pushed else pushed))"
  by (simp add: applyPositionSmoothing_def getPositionHistory_def Let_def split: prod.split)

lemma applyPositionSmoothing_result:
  assumes "h = getPositionHistory (fst (applyPositionSmoothing this bX bY p)) bX bY"
  shows "snd (applyPositionSmoothing this bX bY p) =
     (if length h = 1 then p
      else \<lparr>vx = (\<Sum>j<length h. vx (h ! j) * smoothingWeight (smoothingFactor this) (length h) j)
                 / (\<Sum>j<length h. smoothingWeight (smoothingFactor this) (length h) j),
            vy = (\<Sum>j<length h. vy (h ! j) * smoothingWeight (smoothingFactor this) (length h) j)
                 / (\<Sum>j<length h. smoothingWeight (smoothingFactor this) (length h) j),
            vz = (\<Sum>j<length h. vz (h ! j) * smoothingWeight (smoothingFactor this) (length h) j)
                 / (\<Sum>j<length h. smoothingWeight (smoothingFactor this) (length h) j)\<rparr>)"
proof -
  define stored where "stored = (case positionHistory this (bX, bY) of None \<Rightarrow> [] | Some k \<Rightarrow> k)"
  define history where
    "history = (if maxHistorySize this < length (stored @ [p]) then tl (stored @ [p])
                else stored @ [p])"
  have h: "h = history"
    unfolding assms history_def stored_def
    by (simp add: applyPositionSmoothing_def getPositionHistory_def Let_def split: prod.split)
  have loop: "smoothingLoop history (smoothingFactor this) 0 vec3_zero (Fin 0) =
     (\<lparr>vx = (\<Sum>j<length history. vx (history ! j)
                 * smoothingWeight (smoothingFactor this) (length history) j),
       vy = (\<Sum>j<length history. vy (history ! j)
                 * smoothingWeight (smoothingFactor this) (length history) j),
       vz = (\<Sum>j<length history. vz (history ! j)
                 * smoothingWeight (smoothingFactor this) (length history) j)\<rparr>,
      (\<Sum>j<length history. smoothingWeight (smoothingFactor this) (length history) j))"
    using smoothingLoop_sums [of 0 history "smoothingFactor this" vec3_zero "Fin 0"]
    by (simp add: vec3_zero_def atLeast0LessThan zero_number_def [symmetric])
  have "applyPositionSmoothing this bX bY p =
      (if length history = 1
       then (this\<lparr>positionHistory := (positionHistory this)((bX, bY) \<mapsto> history)\<rparr>, p)
       else
         (case smoothingLoop history (smoothingFactor this) 0 vec3_zero (Fin 0) of
            (smoothedPosition, totalWeight) \<Rightarrow>
              (this\<lparr>positionHistory := (positionHistory this)((bX, bY) \<mapsto> history)\<rparr>,
               \<lparr>vx = vx smoothedPosition / totalWeight,
                 vy = vy smoothedPosition / totalWeight,
                 vz = vz smoothedPosition / totalWeight\<rparr>)))"
    unfolding applyPositionSmoothing_def Let_def stored_def [symmetric]
      history_def [symmetric] by simp
  then show ?thesis
    unfolding h by (simp add: loop)
qed

text \<open>
  Claim C5. Let \<open>h\<close> be the history stored under the key of \<open>(breadboardX, breadboardY)\<close>
  after \<open>applyPositionSmoothing\<close> has appended the new position (and dropped the oldest
  one when more than \<open>maxHistorySize\<close> were held), \<open>n\<close> its length and
  \<open>w i = smoothingFactor ^ (n - 1 - i)\<close>. When \<open>n \<ge> 2\<close> the result is, in each of the
  three components, the sum of the \<open>w i * h[i]\<close> divided by the sum of the \<open>w i\<close>; when
  \<open>n = 1\<close> the result is the new position. For a finite factor, finite positions and a
  sum of weights that is not zero the quotient is the weighted average of the reals.
\<close>

theorem applyPositionSmoothing_weighted_average:
  assumes "applyPositionSmoothing this bX bY p = (this', r)"
    and "h = getPositionHistory this' bX bY"
    and "n = length h"
    and "w = smoothingWeight (smoothingFactor this) n"
  shows "h = (let pushed = getPositionHistory this bX bY @ [p]
              in if maxHistorySize this < length pushed then tl pushed else pushed)
       \<and> (2 \<le> n \<longrightarrow> (\<forall>c \<in> {vx, vy, vz}. c r = (\<Sum>i<n. w i * c (h ! i)) / (\<Sum>i<n. w i)))
       \<and> (n = 1 \<longrightarrow> r = p)
       \<and> (2 \<le> n \<and> c \<in> {vx, vy, vz} \<and> smoothingFactor this = Fin s
            \<and> (\<forall>i<n. c (h ! i) = Fin (x i)) \<and> (\<Sum>i<n. s ^ (n - 1 - i)) \<noteq> 0
          \<longrightarrow> c r = Fin ((\<Sum>i<n. s ^ (n - 1 - i) * x i) / (\<Sum>i<n. s ^ (n - 1 - i))))"
proof -
  have this': "this' = fst (applyPositionSmoothing this bX bY p)"
    and r: "r = snd (applyPositionSmoothing this bX bY p)"
    using assms(1) by simp_all
  have h: "h = getPositionHistory (fst (applyPositionSmoothing this bX bY p)) bX bY"
    using assms(2) this' by simp
  have stored: "h = (let pushed = getPositionHistory this bX bY @ [p]
              in if maxHistorySize this < length pushed then tl pushed else pushed)"
    unfolding h by (simp add: getPositionHistory_def applyPositionSmoothing_history)
  have one: "n = 1 \<longrightarrow> r = p"
    using applyPositionSmoothing_result [OF h] assms(3) r by simp
  have avg: "c r = (\<Sum>i<n. w i * c (h ! i)) / (\<Sum>i<n. w i)"
    if "2 \<le> n" and "c \<in> {vx, vy, vz}" for c
    using applyPositionSmoothing_result [OF h] that assms(3,4) r
    by (auto simp: times_number_commute)
  have fin: "c r = Fin ((\<Sum>i<n. s ^ (n - 1 - i) * x i) / (\<Sum>i<n. s ^ (n - 1 - i)))"
    if n: "2 \<le> n" and c: "c \<in> {vx, vy, vz}" and s: "smoothingFactor this = Fin s"
      and x: "\<forall>i<n. c (h ! i) = Fin (x i)" and nz: "(\<Sum>i<n. s ^ (n - 1 - i)) \<noteq> 0"
  proof -
    have w: "w i = Fin (s ^ (n - 1 - i))" for i
      by (simp add: assms(4) s smoothingWeight_def Math_pow_Fin)
    have "(\<Sum>i<n. w i * c (h ! i)) = (\<Sum>i<n. Fin (s ^ (n - 1 - i) * x i))"
      by (rule sum.cong) (simp_all add: w x)
    then have num: "(\<Sum>i<n. w i * c (h ! i)) = Fin (\<Sum>i<n. s ^ (n - 1 - i) * x i)"
      by (simp add: sum_Fin)
    have den: "(\<Sum>i<n. w i) = Fin (\<Sum>i<n. s ^ (n - 1 - i))"
      by (simp add: w sum_Fin)
    show ?thesis
      using nz by (simp add: avg [OF n c] num den)
  qed
  from stored one avg fin show ?thesis by blast
qed

theorem applyPositionSmoothing_weighted_average_witness:
  "getPositionHistory (fst (applyPositionSmoothing exampleSmoothedMapper (Fin 100) (Fin 200)
        (exampleVec 3))) (Fin 100) (Fin 200) = [exampleVec 0, exampleVec 3]
   \<and> vx (snd (applyPositionSmoothing exampleSmoothedMapper (Fin 100) (Fin 200) (exampleVec 3)))
       = Fin (30 / 11)
   \<and> vy (snd (applyPositionSmoothing exampleSmoothedMapper (Fin 100) (Fin 200) (exampleVec 3)))
       = Fin (60 / 11)
   \<and> snd (applyPositionSmoothing newBreadboardDepthMapper (Fin 100) (Fin 200) (exampleVec 3))
       = exampleVec 3"
proof -
  have a: "applyPositionSmoothing exampleSmoothedMapper (Fin 100) (Fin 200) (exampleVec 3) =
      (fst (applyPositionSmoothing exampleSmoothedMapper (Fin 100) (Fin 200) (exampleVec 3)),
       snd (applyPositionSmoothing exampleSmoothedMapper (Fin 100) (Fin 200) (exampleVec 3)))"
    by simp
  have b: "applyPositionSmoothing newBreadboardDepthMapper (Fin 100) (Fin 200) (exampleVec 3) =
      (fst (applyPositionSmoothing newBreadboardDepthMapper (Fin 100) (Fin 200) (exampleVec 3)),
       snd (applyPositionSmoothing newBreadboardDepthMapper (Fin 100) (Fin 200) (exampleVec 3)))"
    by simp
  have old: "getPositionHistory exampleSmoothedMapper (Fin 100) (Fin 200) = [exampleVec 0]"
    "getPositionHistory newBreadboardDepthMapper (Fin 100) (Fin 200) = []"
    "maxHistorySize exampleSmoothedMapper = 10" "maxHistorySize newBreadboardDepthMapper = 10"
    "smoothingFactor exampleSmoothedMapper = Fin (1 / 10)"
    by (simp_all add: getPositionHistory_def exampleSmoothedMapper_def
        newBreadboardDepthMapper_def)
  note A = applyPositionSmoothing_weighted_average [OF a refl refl refl,
      unfolded old Let_def, simplified]
  note B = applyPositionSmoothing_weighted_average [OF b refl refl refl,
      unfolded old Let_def, simplified]
  show ?thesis
    using A B
    by (simp add: old smoothingWeight_def lessThan_Suc numeral_2_eq_2 exampleVec_def
        Math_pow_Fin)
qed

lemma applyPositionSmoothing_frame:
  "maxHistorySize (fst (applyPositionSmoothing this bX bY p)) = maxHistorySize this"
  "depthCalls (fst (applyPositionSmoothing this bX bY p)) = depthCalls this"
  by (simp_all add: applyPositionSmoothing_def Let_def split: prod.split)

lemma applyPositionSmoothing_bounded:
  assumes "historyBounded this"
  shows "historyBounded (fst (applyPositionSmoothing this bX bY p))"
proof -
  have "length (let pushed = getPositionHistory this bX bY @ [p]
         in if maxHistorySize this < length pushed then tl pushed else pushed)
        \<le> maxHistorySize this"
    using assms
    by (auto simp: historyBounded_def getPositionHistory_def Let_def split: option.split)
  with assms show ?thesis
    by (simp add: historyBounded_def applyPositionSmoothing_history
        applyPositionSmoothing_frame)
qed

lemma historyBounded_frame [simp]:
  "historyBounded (this\<lparr>depthCalls := dc\<rparr>) = historyBounded this"
  "historyBounded (this\<lparr>positioningResults := rs\<rparr>) = historyBounded this"
  by (simp_all add: historyBounded_def)

lemma applyPositionSmoothing_eqD:
  assumes "applyPositionSmoothing st bX bY q = (st', r)"
  shows "historyBounded st \<Longrightarrow> historyBounded st'"
    and "maxHistorySize st' = maxHistorySize st"
    and "depthCalls st' = depthCalls st"
  using applyPositionSmoothing_bounded [of st bX bY q]
    applyPositionSmoothing_frame [of st bX bY q] assms
  by simp_all

lemma mapBreadboardToWorldPosition_bounded:
  assumes "historyBounded this"
  shows "historyBounded (fst (mapBreadboardToWorldPosition this bX bY))"
  using assms
  by (auto simp: mapBreadboardToWorldPosition_def Let_def
      split: prod.split option.split dest!: applyPositionSmoothing_eqD(1))

lemma mapBreadboardToWorldPosition_maxHistorySize:
  "maxHistorySize (fst (mapBreadboardToWorldPosition this bX bY)) = maxHistorySize this"
  by (auto simp: mapBreadboardToWorldPosition_def Let_def
      split: prod.split option.split dest!: applyPositionSmoothing_eqD(2))

lemma mapCalls_bounded:
  "historyBounded this \<Longrightarrow> historyBounded (mapCalls this calls)"
  by (induction calls arbitrary: this) (auto simp: mapBreadboardToWorldPosition_bounded)

lemma mapCalls_maxHistorySize:
  "maxHistorySize (mapCalls this calls) = maxHistorySize this"
  by (induction calls arbitrary: this) (auto simp: mapBreadboardToWorldPosition_maxHistorySize)

text \<open>
  Claim C7. Starting from a component whose history is empty (as it is after construction
  and after \<open>clearPositionHistory\<close>) and whose \<open>maxHistorySize\<close> is \<open>10\<close>, every list stored
  in \<open>positionHistory\<close> after any sequence of calls of \<open>mapBreadboardToWorldPosition\<close>
  holds at most \<open>10\<close> positions. One call of \<open>mapBreadboardToWorldPosition\<close> or of
  \<open>applyPositionSmoothing\<close> keeps the bound from any state that has it, and
  \<open>clearPositionHistory\<close> leaves the history empty.
\<close>

theorem positionHistory_at_most_maxHistorySize:
  "(positionHistory this = Map.empty \<and> maxHistorySize this = 10
      \<longrightarrow> (\<forall>key h. positionHistory (mapCalls this calls) key = Some h \<longrightarrow> length h \<le> 10))
   \<and> (historyBounded this
      \<longrightarrow> historyBounded (fst (mapBreadboardToWorldPosition this bX bY))
        \<and> historyBounded (fst (applyPositionSmoothing this bX bY p)))
   \<and> positionHistory (clearPositionHistory this) = Map.empty
   \<and> historyBounded (clearPositionHistory this)"
proof -
  have "\<forall>key h. positionHistory (mapCalls this calls) key = Some h \<longrightarrow> length h \<le> 10"
    if e: "positionHistory this = Map.empty" and m: "maxHistorySize this = 10"
  proof -
    from e have "historyBounded this" by (simp add: historyBounded_def)
    then have "historyBounded (mapCalls this calls)" by (rule mapCalls_bounded)
    then show ?thesis by (simp add: historyBounded_def mapCalls_maxHistorySize m)
  qed
  moreover have "positionHistory (clearPositionHistory this) = Map.empty"
    by (simp add: clearPositionHistory_def)
  moreover have "historyBounded (clearPositionHistory this)"
    by (simp add: clearPositionHistory_def historyBounded_def)
  ultimately show ?thesis
    using mapBreadboardToWorldPosition_bounded [of this bX bY]
      applyPositionSmoothing_bounded [of this bX bY p]
    by blast
qed

lemma getPositionHistory_frame [simp]:
  "getPositionHistory (this\<lparr>depthCalls := dc\<rparr>) = getPositionHistory this"
  "getPositionHistory (this\<lparr>positioningResults := rs\<rparr>) = getPositionHistory this"
  by (simp_all add: getPositionHistory_def fun_eq_iff)

lemma applyPositionSmoothing_length:
  assumes "applyPositionSmoothing st bX bY q = (st', r)"
  shows "length (getPositionHistory st' bX bY) =
     (if maxHistorySize st < Suc (length (getPositionHistory st bX bY))
      then length (getPositionHistory st bX bY)
      else Suc (length (getPositionHistory st bX bY)))"
proof -
  have "st' = fst (applyPositionSmoothing st bX bY q)"
    using assms by simp
  then show ?thesis
    by (simp add: getPositionHistory_def [of "fst _"] applyPositionSmoothing_history Let_def)
qed

lemma mapBreadboardToWorldPosition_length:
  assumes "enablePositionSmoothing this"
  shows "length (getPositionHistory (fst (mapBreadboardToWorldPosition this bX bY)) bX bY) =
     (if maxHistorySize this < Suc (length (getPositionHistory this bX bY))
      then length (getPositionHistory this bX bY)
      else Suc (length (getPositionHistory this bX bY)))"
  using assms
  by (auto simp: mapBreadboardToWorldPosition_def Let_def
      split: prod.split option.split dest!: applyPositionSmoothing_length)

lemma applyPositionSmoothing_enabled:
  "enablePositionSmoothing (fst (applyPositionSmoothing st bX bY q)) = enablePositionSmoothing st"
  by (simp add: applyPositionSmoothing_def Let_def split: prod.split)

lemma mapBreadboardToWorldPosition_enabled:
  "enablePositionSmoothing (fst (mapBreadboardToWorldPosition this bX bY)) =
     enablePositionSmoothing this"
proof -
  have "enablePositionSmoothing st' = enablePositionSmoothing st"
    if "applyPositionSmoothing st bX bY q = (st', r)" for st st' q r
    using applyPositionSmoothing_enabled [of st bX bY q] that by simp
  then show ?thesis
    by (auto simp: mapBreadboardToWorldPosition_def Let_def split: prod.split option.split)
qed

lemma mapCalls_replicate_length:
  assumes "enablePositionSmoothing this" and "maxHistorySize this = 10"
    and "length (getPositionHistory this bX bY) \<le> 10"
  shows "length (getPositionHistory (mapCalls this (replicate k (bX, bY))) bX bY) =
     min (length (getPositionHistory this bX bY) + k) 10"
  using assms
proof (induction k arbitrary: this)
  case 0
  then show ?case by simp
next
  case (Suc k)
  let ?next = "fst (mapBreadboardToWorldPosition this bX bY)"
  have len: "length (getPositionHistory ?next bX bY) =
      min (Suc (length (getPositionHistory this bX bY))) 10"
    using Suc.prems by (simp add: mapBreadboardToWorldPosition_length)
  have "length (getPositionHistory (mapCalls ?next (replicate k (bX, bY))) bX bY) =
      min (length (getPositionHistory ?next bX bY) + k) 10"
    using Suc.prems len
    by (intro Suc.IH)
      (simp_all add: mapBreadboardToWorldPosition_enabled
        mapBreadboardToWorldPosition_maxHistorySize)
  then show ?case
    using len by simp
qed

theorem positionHistory_at_most_maxHistorySize_witness:
  "positionHistory newBreadboardDepthMapper = Map.empty
   \<and> maxHistorySize newBreadboardDepthMapper = 10
   \<and> length (getPositionHistory
        (mapCalls newBreadboardDepthMapper (replicate 12 (Fin 100, Fin 200)))
        (Fin 100) (Fin 200)) = 10
   \<and> (\<exists>h. positionHistory
          (mapCalls newBreadboardDepthMapper (replicate 12 (Fin 100, Fin 200)))
          (Fin 100, Fin 200) = Some h \<and> length h \<le> 10)
   \<and> positionHistory (clearPositionHistory
        (mapCalls newBreadboardDepthMapper (replicate 12 (Fin 100, Fin 200)))) = Map.empty"
proof -
  have init: "positionHistory newBreadboardDepthMapper = Map.empty"
    "maxHistorySize newBreadboardDepthMapper = 10"
    "enablePositionSmoothing newBreadboardDepthMapper"
    "getPositionHistory newBreadboardDepthMapper (Fin 100) (Fin 200) = []"
    by (simp_all add: newBreadboardDepthMapper_def getPositionHistory_def)
  have full: "length (getPositionHistory
        (mapCalls newBreadboardDepthMapper (replicate 12 (Fin 100, Fin 200)))
        (Fin 100) (Fin 200)) = 10"
    using mapCalls_replicate_length [of newBreadboardDepthMapper "Fin 100" "Fin 200" 12]
    by (simp add: init)
  from full obtain h where h: "positionHistory
      (mapCalls newBreadboardDepthMapper (replicate 12 (Fin 100, Fin 200)))
      (Fin 100, Fin 200) = Some h"
    by (auto simp: getPositionHistory_def split: option.splits)
  have "length h \<le> 10"
    using positionHistory_at_most_maxHistorySize
        [of newBreadboardDepthMapper "replicate 12 (Fin 100, Fin 200)"] init(1,2) h
    by blast
  with h have "\<exists>h. positionHistory
      (mapCalls newBreadboardDepthMapper (replicate 12 (Fin 100, Fin 200)))
      (Fin 100, Fin 200) = Some h \<and> length h \<le> 10"
    by blast
  then show ?thesis
    using init(1,2) full
      positionHistory_at_most_maxHistorySize
        [of "mapCalls newBreadboardDepthMapper (replicate 12 (Fin 100, Fin 200))"]
    by simp
qed



lemma positionFromReply_frame [simp]:
  "positionFromReply (this\<lparr>depthCalls := dc\<rparr>) = positionFromReply this"
  by (simp add: positionFromReply_def fun_eq_iff calculateFallbackPosition_def
      calculateWorldPositionFromDepth_def split: option.split DepthReply.split)




section \<open>Overlays\<close>

lemma breadboardToWorldPosition_frame [simp]:
  "overlayCounter (fst (breadboardToWorldPosition st bX bY)) = overlayCounter st"
  "overlayCreated (fst (breadboardToWorldPosition st bX bY)) = overlayCreated st"
  "activeOverlays (fst (breadboardToWorldPosition st bX bY)) = activeOverlays st"
  "highlightMethod (fst (breadboardToWorldPosition st bX bY)) = highlightMethod st"
  by (simp_all add: breadboardToWorldPosition_def Let_def split_beta
      split: option.split)

lemma createSceneObject_frame [simp]:
  "overlayCounter (fst (createSceneObject st name pos sc)) = overlayCounter st"
  "overlayCreated (fst (createSceneObject st name pos sc)) = overlayCreated st"
  "activeOverlays (fst (createSceneObject st name pos sc)) = activeOverlays st"
  by (simp_all add: createSceneObject_def)

lemma storeHoleHighlight_effect [simp]:
  "overlayCounter (fst (storeHoleHighlight st overlayId pos col dur obj mat)) = overlayCounter st"
  "length (overlayCreated (fst (storeHoleHighlight st overlayId pos col dur obj mat))) =
     Suc (length (overlayCreated st))"
  by (simp_all add: storeHoleHighlight_def animateHoleHighlight_def Let_def)

lemma createHighlight_effect [simp]:
  "overlayCounter (fst (createInvertedHullHighlight st overlayId pos col dur)) = overlayCounter st"
  "length (overlayCreated (fst (createInvertedHullHighlight st overlayId pos col dur))) =
     Suc (length (overlayCreated st))"
  "overlayCounter (fst (createFresnelGlowHighlight st overlayId pos col dur)) = overlayCounter st"
  "length (overlayCreated (fst (createFresnelGlowHighlight st overlayId pos col dur))) =
     Suc (length (overlayCreated st))"
  "overlayCounter (fst (createSimpleHighlight st overlayId pos col dur)) = overlayCounter st"
  "length (overlayCreated (fst (createSimpleHighlight st overlayId pos col dur))) =
     Suc (length (overlayCreated st))"
  by (simp_all add: createInvertedHullHighlight_def createFresnelGlowHighlight_def
      createSimpleHighlight_def Let_def split_beta)

lemma highlightBreadboardHole_effect [simp]:
  "overlayCounter (fst (highlightBreadboardHole st bX bY col dur)) = Suc (overlayCounter st)"
  "length (overlayCreated (fst (highlightBreadboardHole st bX bY col dur))) =
     Suc (length (overlayCreated st))"
  by (simp_all add: highlightBreadboardHole_def Let_def split_beta)

lemma showComponentLabel_effect [simp]:
  "overlayCounter (showComponentLabel st c h) = Suc (overlayCounter st)"
  "length (overlayCreated (showComponentLabel st c h)) = Suc (length (overlayCreated st))"
  by (simp_all add: showComponentLabel_def Let_def split_beta split: option.split)

lemma showPlacementGuidance_effect [simp]:
  "overlayCounter (showPlacementGuidance st c h) = overlayCounter st + 2"
  "length (overlayCreated (showPlacementGuidance st c h)) = length (overlayCreated st) + 2"
  by (simp_all add: showPlacementGuidance_def Let_def split_beta)



text \<open>
  Claim C9. For an \<open>overlayId\<close> that is not a key of \<open>activeOverlays\<close>, \<open>removeOverlay\<close>
  returns \<open>false\<close> and changes nothing: the map, the stored overlays and the record of
  \<open>overlayRemovedEvent\<close> are as before. For an id that is a key it returns \<open>true\<close>: an
  overlay without a material is deleted and announced at once, one with a material is
  marked invisible and its fade-out is started.
\<close>

theorem removeOverlay_unknown_id:
  "(activeOverlays this overlayId = None \<longrightarrow>
      removeOverlay this overlayId = (this, False)
      \<and> activeOverlays (fst (removeOverlay this overlayId)) = activeOverlays this
      \<and> overlayRemoved (fst (removeOverlay this overlayId)) = overlayRemoved this)
   \<and> (activeOverlays this overlayId \<noteq> None \<longrightarrow> snd (removeOverlay this overlayId) = True)
   \<and> (activeOverlays this overlayId = Some overlay \<and> ov_material overlay = None \<longrightarrow>
        activeOverlays (fst (removeOverlay this overlayId)) overlayId = None
        \<and> overlayRemoved (fst (removeOverlay this overlayId)) =
            overlayRemoved this @ [overlayId])
   \<and> (activeOverlays this overlayId = Some overlay \<and> ov_material overlay \<noteq> None \<longrightarrow>
        activeOverlays (fst (removeOverlay this overlayId)) overlayId =
          Some (overlay\<lparr>ov_isVisible := False\<rparr>)
        \<and> overlayRemoved (fst (removeOverlay this overlayId)) = overlayRemoved this
        \<and> tweens (fst (removeOverlay this overlayId)) =
            tweens this @ [FadeOutTween overlayId])"
  by (auto simp: removeOverlay_def finishRemoval_def disableSceneObject_def Let_def
      split: option.splits)

theorem removeOverlay_unknown_id_witness:
  "activeOverlays exampleLabelledOverlay (str ''hole_7'') = None
   \<and> removeOverlay exampleLabelledOverlay (str ''hole_7'') = (exampleLabelledOverlay, False)
   \<and> activeOverlays exampleLabelledOverlay (str ''label_0'') = Some exampleLabel
   \<and> snd (removeOverlay exampleLabelledOverlay (str ''label_0'')) = True
   \<and> overlayRemoved (fst (removeOverlay exampleLabelledOverlay (str ''label_0''))) =
       [str ''label_0'']"
proof -
  have absent: "activeOverlays exampleLabelledOverlay (str ''hole_7'') = None"
    and present: "activeOverlays exampleLabelledOverlay (str ''label_0'') = Some exampleLabel"
    and plain: "ov_material exampleLabel = None"
    and log: "overlayRemoved exampleLabelledOverlay = []"
    by (simp_all add: exampleLabelledOverlay_def newBreadboardAROverlay_def exampleLabel_def
        str_def)
  show ?thesis
    using removeOverlay_unknown_id [of exampleLabelledOverlay "str ''hole_7''"]
      removeOverlay_unknown_id [of exampleLabelledOverlay "str ''label_0''" exampleLabel]
    by (simp add: absent present plain log)
qed




end
